theory Spec2Isabelle
  imports Main "HOL-Library.Word"
begin

section \<open>Base chain parameters (chainparamsbase.cpp)\<close>

subsection \<open>Data model\<close>

text \<open>
  Modelled from the spec: the class \<open>CBaseChainParams\<close> is declared in chainparamsbase.h,
  which is not part of the sources at hand. The spec gives it two immutable attributes, the
  data-directory suffix (a string) and the default port (a 16-bit unsigned integer); the
  constructor takes them in this order.
\<close>

record CBaseChainParams =
  dataDirectorySuffix :: string
  defaultPort :: "16 word"

definition MakeUnique_CBaseChainParams :: "string \<Rightarrow> 16 word \<Rightarrow> CBaseChainParams" where
  "MakeUnique_CBaseChainParams data_dir port =
     \<lparr>dataDirectorySuffix = data_dir, defaultPort = port\<rparr>"

text \<open>The four reserved identifiers (lines 14 to 17).\<close>

definition MAIN :: string where "MAIN = ''main''"
definition TESTNET :: string where "TESTNET = ''test''"
definition SIGNET :: string where "SIGNET = ''signet''"
definition REGTEST :: string where "REGTEST = ''regtest''"

definition reserved_chains :: "string list" where
  "reserved_chains = [MAIN, TESTNET, REGTEST, SIGNET]"

subsection \<open>The factory\<close>

definition CreateBaseChainParams :: "string \<Rightarrow> CBaseChainParams" where
  "CreateBaseChainParams chain =
     (if chain = MAIN then MakeUnique_CBaseChainParams '''' 8332
      else if chain = TESTNET then MakeUnique_CBaseChainParams ''testnet3'' 18332
      else if chain = REGTEST then MakeUnique_CBaseChainParams ''regtest'' 18443
      else if chain = SIGNET then MakeUnique_CBaseChainParams ''signet'' 38332
      else MakeUnique_CBaseChainParams chain 18553)"

text \<open>
  The table of section 4.2 of the specification, as an association list whose lookup
  returns the first matching row, and the factory the specification describes.
\<close>

definition spec_table :: "(string \<times> string \<times> 16 word) list" where
  "spec_table =
     [(''main'', '''', 8332),
      (''test'', ''testnet3'', 18332),
      (''regtest'', ''regtest'', 18443),
      (''signet'', ''signet'', 38332)]"

definition spec_CreateChainParameters :: "string \<Rightarrow> CBaseChainParams" where
  "spec_CreateChainParameters identifier =
     (case map_of spec_table identifier of
        Some (suffix, port) \<Rightarrow> \<lparr>dataDirectorySuffix = suffix, defaultPort = port\<rparr>
      | None \<Rightarrow> \<lparr>dataDirectorySuffix = identifier, defaultPort = 18553\<rparr>)"

subsection \<open>The configuration collaborator\<close>

text \<open>
  Modelled from the spec: \<open>ArgsManager\<close>, its flag constants and \<open>OptionsCategory\<close> are
  declared in util/system.h, which is not part of the sources at hand. The spec describes a
  registration as a name, a help string, an allowed value kind, a category tag and a
  developer-only visibility flag. A flag word is modelled as the set of the flag constants
  or-ed together in the source, the registry as the list of the registrations in the order
  they were made, and \<open>SelectConfigNetwork\<close> as recording the identifier the later
  configuration-file lookups are scoped to.
\<close>

datatype Flags = ALLOW_ANY | ALLOW_STRING | DEBUG_ONLY

datatype OptionsCategory = CHAINPARAMS | DEBUG_TEST

record Arg =
  arg_name :: string
  arg_help :: string
  arg_flags :: "Flags set"
  arg_cat :: OptionsCategory

record ArgsManager =
  m_available_args :: "Arg list"
  m_network :: string

definition AddArg :: "string \<Rightarrow> string \<Rightarrow> Flags set \<Rightarrow> OptionsCategory \<Rightarrow> ArgsManager \<Rightarrow> ArgsManager" where
  "AddArg name help flags cat g =
     g\<lparr>m_available_args := m_available_args g @
        [\<lparr>arg_name = name, arg_help = help, arg_flags = flags, arg_cat = cat\<rparr>]\<rparr>"

definition SelectConfigNetwork :: "string \<Rightarrow> ArgsManager \<Rightarrow> ArgsManager" where
  "SelectConfigNetwork network g = g\<lparr>m_network := network\<rparr>"

text \<open>The registrations a name has received, in order.\<close>

definition registrations :: "string \<Rightarrow> ArgsManager \<Rightarrow> Arg list" where
  "registrations name g = filter (\<lambda>a. arg_name a = name) (m_available_args g)"

text \<open>Whether a text contains a word as a contiguous run of characters.\<close>

fun starts_with :: "string \<Rightarrow> string \<Rightarrow> bool" where
  "starts_with [] ys = True"
| "starts_with (x # xs) [] = False"
| "starts_with (x # xs) (y # ys) = (x = y \<and> starts_with xs ys)"

fun mentions :: "string \<Rightarrow> string \<Rightarrow> bool" where
  "mentions [] w = (w = [])"
| "mentions (c # cs) w = (starts_with w (c # cs) \<or> mentions cs w)"

subsection \<open>Process-wide state\<close>

text \<open>
  The two globals the file works on: the static slot \<open>globalChainBaseParams\<close> (line 33),
  a null pointer when the process starts, and the collaborator's object \<open>gArgs\<close>.
\<close>

record process =
  globalChainBaseParams :: "CBaseChainParams option"
  gArgs :: ArgsManager

definition process_start :: process where
  "process_start =
     \<lparr>globalChainBaseParams = None,
      gArgs = \<lparr>m_available_args = [], m_network = ''''\<rparr>\<rparr>"

datatype error = AssertionFailure

subsection \<open>Option registration (lines 19 to 31)\<close>

definition help_chain :: string where
  "help_chain = ''Use the chain <chain> (default: main). Reserved values: main, test, regtest. With any other value, a custom chain is used. All regtest-only options are available in custom chains too.''"

definition help_regtest :: string where
  "help_regtest = ''Enter regression test mode, which uses a special chain in which blocks can be solved instantly. '' @
                  ''This is intended for regression testing tools and app development. Equivalent to -chain=regtest.''"

definition help_segwitheight :: string where
  "help_segwitheight = ''Set the activation height of segwit. -1 to disable. (regtest-only)''"

definition help_testnet :: string where
  "help_testnet = ''Use the test chain. Equivalent to -chain=test.''"

definition help_vbparams :: string where
  "help_vbparams = ''Use given start/end times for specified version bits deployment (regtest-only)''"

definition help_signet :: string where
  "help_signet = ''Use the signet chain. Note that the network is defined by the signet_blockscript parameter''"

definition help_signet_blockscript :: string where
  "help_signet_blockscript = ''Blocks must satisfy the given script to be considered valid (only for signet networks)''"

definition help_signet_enforcescript :: string where
  "help_signet_enforcescript = ''Blocks must satisfy the given script to be considered valid (this replaces -signet_blockscript, and is used for opt-in-reorg mode)''"

definition help_is_test_chain :: string where
  "help_is_test_chain = ''Whether it's allowed to set -acceptnonstdtxn=0 for this chain or not. Default: 1 (regtest-only)''"

definition SetupChainParamsBaseOptions :: "process \<Rightarrow> process" where
  "SetupChainParamsBaseOptions s =
     (let g = gArgs s;
          g = AddArg ''-chain=<chain>'' help_chain {ALLOW_ANY} CHAINPARAMS g;
          g = AddArg ''-regtest'' help_regtest ({ALLOW_ANY} \<union> {DEBUG_ONLY}) CHAINPARAMS g;
          g = AddArg ''-segwitheight=<n>'' help_segwitheight ({ALLOW_ANY} \<union> {DEBUG_ONLY}) DEBUG_TEST g;
          g = AddArg ''-testnet'' help_testnet {ALLOW_ANY} CHAINPARAMS g;
          g = AddArg ''-vbparams=deployment:start:end'' help_vbparams ({ALLOW_ANY} \<union> {DEBUG_ONLY}) CHAINPARAMS g;
          g = AddArg ''-signet'' help_signet {ALLOW_ANY} CHAINPARAMS g;
          g = AddArg ''-signet_blockscript'' help_signet_blockscript {ALLOW_STRING} CHAINPARAMS g;
          g = AddArg ''-signet_enforcescript'' help_signet_enforcescript {ALLOW_STRING} CHAINPARAMS g;
          g = AddArg ''-is_test_chain'' help_is_test_chain ({ALLOW_ANY} \<union> {DEBUG_ONLY}) CHAINPARAMS g
      in s\<lparr>gArgs := g\<rparr>)"

subsection \<open>Accessor and selection (lines 35 to 59)\<close>

text \<open>The assertion of line 37 ends the process; that outcome is the left summand.\<close>

definition BaseParams :: "process \<Rightarrow> error + CBaseChainParams" where
  "BaseParams s =
     (case globalChainBaseParams s of
        None \<Rightarrow> Inl AssertionFailure
      | Some p \<Rightarrow> Inr p)"

subsection \<open>Function bodies as programs over the globals\<close>

text \<open>
  What a statement of this file can do to the process-wide state is read the slot, write
  the slot, call a member function of \<open>gArgs\<close>, fail an assertion, or return. A function
  body is a term of these actions, each carrying the rest of the body, so that the order of
  the statements and the globals they touch are part of the term.
\<close>

datatype 'a prog =
    Return 'a
  | Get_slot "CBaseChainParams option \<Rightarrow> 'a prog"
  | Set_slot CBaseChainParams "'a prog"
  | Call_gArgs "ArgsManager \<Rightarrow> ArgsManager" "'a prog"
  | Assert_fail

text \<open>Running a body: the outcome and the state it ends in.\<close>

primrec exec :: "'a prog \<Rightarrow> process \<Rightarrow> (error + 'a) \<times> process" where
  "exec (Return v) s = (Inr v, s)"
| "exec (Get_slot k) s = exec (k (globalChainBaseParams s)) s"
| "exec (Set_slot p k) s = exec k (s\<lparr>globalChainBaseParams := Some p\<rparr>)"
| "exec (Call_gArgs g k) s = exec k (s\<lparr>gArgs := g (gArgs s)\<rparr>)"
| "exec Assert_fail s = (Inl AssertionFailure, s)"

text \<open>
  The accesses to the globals a run makes, in the order it makes them, each with the state
  it is made in.
\<close>

datatype event = Read_of_slot | Write_of_slot | Call_of_gArgs

primrec effects :: "'a prog \<Rightarrow> process \<Rightarrow> (event \<times> process) list" where
  "effects (Return v) s = []"
| "effects (Get_slot k) s = (Read_of_slot, s) # effects (k (globalChainBaseParams s)) s"
| "effects (Set_slot p k) s =
     (Write_of_slot, s) # effects k (s\<lparr>globalChainBaseParams := Some p\<rparr>)"
| "effects (Call_gArgs g k) s = (Call_of_gArgs, s) # effects k (s\<lparr>gArgs := g (gArgs s)\<rparr>)"
| "effects Assert_fail s = []"

text \<open>A call whose result the rest of the body uses.\<close>

primrec call_then :: "'a prog \<Rightarrow> ('a \<Rightarrow> 'b prog) \<Rightarrow> 'b prog" where
  "call_then (Return v) f = f v"
| "call_then (Get_slot k) f = Get_slot (\<lambda>x. call_then (k x) f)"
| "call_then (Set_slot p k) f = Set_slot p (call_then k f)"
| "call_then (Call_gArgs g k) f = Call_gArgs g (call_then k f)"
| "call_then Assert_fail f = Assert_fail"

text \<open>The accessor (lines 35 to 39).\<close>

definition BaseParams_prog :: "CBaseChainParams prog" where
  "BaseParams_prog =
     Get_slot (\<lambda>p. case p of None \<Rightarrow> Assert_fail | Some params \<Rightarrow> Return params)"

text \<open>The factory (lines 41 to 53).\<close>

definition CreateBaseChainParams_prog :: "string \<Rightarrow> CBaseChainParams prog" where
  "CreateBaseChainParams_prog chain =
     (if chain = MAIN then Return (MakeUnique_CBaseChainParams '''' 8332)
      else if chain = TESTNET then Return (MakeUnique_CBaseChainParams ''testnet3'' 18332)
      else if chain = REGTEST then Return (MakeUnique_CBaseChainParams ''regtest'' 18443)
      else if chain = SIGNET then Return (MakeUnique_CBaseChainParams ''signet'' 38332)
      else Return (MakeUnique_CBaseChainParams chain 18553))"

text \<open>
  The selection (lines 55 to 59): line 57 calls the factory and stores its result in the
  slot, line 58 calls the collaborator.
\<close>

definition SelectBaseParams_prog :: "string \<Rightarrow> unit prog" where
  "SelectBaseParams_prog chain =
     call_then (CreateBaseChainParams_prog chain) (\<lambda>params.
     Set_slot params (
     Call_gArgs (SelectConfigNetwork chain) (
     Return ())))"

definition SelectBaseParams :: "string \<Rightarrow> process \<Rightarrow> process" where
  "SelectBaseParams chain s = snd (exec (SelectBaseParams_prog chain) s)"

subsection \<open>Histories of calls\<close>

datatype call = Setup | Select string | Create string

fun run_call :: "call \<Rightarrow> process \<Rightarrow> process" where
  "run_call Setup s = SetupChainParamsBaseOptions s"
| "run_call (Select chain) s = SelectBaseParams chain s"
| "run_call (Create chain) s = snd (exec (CreateBaseChainParams_prog chain) s)"

definition run :: "call list \<Rightarrow> process \<Rightarrow> process" where
  "run cs s = fold run_call cs s"

fun last_selected :: "call list \<Rightarrow> string option" where
  "last_selected [] = None"
| "last_selected (c # cs) =
     (case last_selected cs of
        Some chain \<Rightarrow> Some chain
      | None \<Rightarrow> (case c of Select chain \<Rightarrow> Some chain | _ \<Rightarrow> None))"

section \<open>Properties\<close>

subsection \<open>Auxiliary facts\<close>

lemmas chain_names = MAIN_def TESTNET_def SIGNET_def REGTEST_def

lemmas factory_defs = CreateBaseChainParams_def MakeUnique_CBaseChainParams_def chain_names

lemmas setup_defs = SetupChainParamsBaseOptions_def AddArg_def registrations_def

lemma CreateBaseChainParams_prog_Return:
  "CreateBaseChainParams_prog chain = Return (CreateBaseChainParams chain)"
  by (simp add: CreateBaseChainParams_prog_def CreateBaseChainParams_def)

lemma BaseParams_prog_exec:
  "exec BaseParams_prog s = (BaseParams s, s)"
  by (simp add: BaseParams_prog_def BaseParams_def split: option.split)

lemma SelectBaseParams_state:
  "SelectBaseParams chain s =
     s\<lparr>globalChainBaseParams := Some (CreateBaseChainParams chain),
       gArgs := SelectConfigNetwork chain (gArgs s)\<rparr>"
  by (simp add: SelectBaseParams_def SelectBaseParams_prog_def
      CreateBaseChainParams_prog_Return)

lemma slot_SelectBaseParams:
  "globalChainBaseParams (SelectBaseParams chain s) = Some (CreateBaseChainParams chain)"
  by (simp add: SelectBaseParams_state)

lemma slot_SetupChainParamsBaseOptions:
  "globalChainBaseParams (SetupChainParamsBaseOptions s) = globalChainBaseParams s"
  by (simp add: SetupChainParamsBaseOptions_def Let_def)

lemma BaseParams_run_call:
  "BaseParams (run_call c s) =
     (case c of Select chain \<Rightarrow> Inr (CreateBaseChainParams chain) | _ \<Rightarrow> BaseParams s)"
  by (cases c)
     (simp_all add: BaseParams_def slot_SelectBaseParams slot_SetupChainParamsBaseOptions
        CreateBaseChainParams_prog_Return)

lemma BaseParams_run:
  "BaseParams (run cs s) =
     (case last_selected cs of
        None \<Rightarrow> BaseParams s
      | Some chain \<Rightarrow> Inr (CreateBaseChainParams chain))"
proof (induction cs arbitrary: s)
  case Nil
  show ?case by (simp add: run_def)
next
  case (Cons c cs)
  have "run (c # cs) s = run cs (run_call c s)"
    by (simp add: run_def)
  then have "BaseParams (run (c # cs) s) =
      (case last_selected cs of
         None \<Rightarrow> BaseParams (run_call c s)
       | Some chain \<Rightarrow> Inr (CreateBaseChainParams chain))"
    using Cons.IH [of "run_call c s"] by simp
  then show ?case
    by (simp add: BaseParams_run_call split: option.split call.split)
qed

lemma CreateBaseChainParams_differs:
  "a \<noteq> b \<Longrightarrow> CreateBaseChainParams a \<noteq> CreateBaseChainParams b"
  by (auto simp add: factory_defs split: if_splits)

subsection \<open>The factory\<close>

text \<open>
  C1. Each of the four reserved identifiers is mapped to the pair of the table:
  "main" to ("", 8332), "test" to ("testnet3", 18332), "regtest" to ("regtest", 18443) and
  "signet" to ("signet", 38332), the ports being these numbers as 16-bit unsigned values.
  On every input the factory agrees with the first-match lookup in the table taken in the
  order main, test, regtest, signet.
\<close>

theorem CreateBaseChainParams_reserved:
  "CreateBaseChainParams ''main'' = \<lparr>dataDirectorySuffix = '''', defaultPort = 8332\<rparr>
   \<and> CreateBaseChainParams ''test'' = \<lparr>dataDirectorySuffix = ''testnet3'', defaultPort = 18332\<rparr>
   \<and> CreateBaseChainParams ''regtest'' = \<lparr>dataDirectorySuffix = ''regtest'', defaultPort = 18443\<rparr>
   \<and> CreateBaseChainParams ''signet'' = \<lparr>dataDirectorySuffix = ''signet'', defaultPort = 38332\<rparr>
   \<and> map (\<lambda>c. unat (defaultPort (CreateBaseChainParams c))) reserved_chains
       = [8332, 18332, 18443, 38332]
   \<and> CreateBaseChainParams chain = spec_CreateChainParameters chain"
  by (simp add: factory_defs reserved_chains_def spec_CreateChainParameters_def spec_table_def)

text \<open>
  C2. For every string that is none of the four reserved identifiers, the empty string
  included, the factory returns the custom-chain pair: the string itself as suffix and the
  port 18553. The factory is a total function into the parameter type, with no error
  outcome.
\<close>

theorem CreateBaseChainParams_custom:
  "chain \<notin> set reserved_chains \<Longrightarrow>
     CreateBaseChainParams chain = \<lparr>dataDirectorySuffix = chain, defaultPort = 18553\<rparr>
     \<and> unat (defaultPort (CreateBaseChainParams chain)) = 18553"
  by (simp add: factory_defs reserved_chains_def)

theorem CreateBaseChainParams_custom_witness:
  "'''' \<notin> set reserved_chains
   \<and> CreateBaseChainParams '''' = \<lparr>dataDirectorySuffix = '''', defaultPort = 18553\<rparr>
   \<and> ''mytestnet'' \<notin> set reserved_chains
   \<and> CreateBaseChainParams ''mytestnet''
       = \<lparr>dataDirectorySuffix = ''mytestnet'', defaultPort = 18553\<rparr>"
proof -
  have e: "'''' \<notin> set reserved_chains"
    by (simp add: reserved_chains_def chain_names)
  have m: "''mytestnet'' \<notin> set reserved_chains"
    by (simp add: reserved_chains_def chain_names)
  show ?thesis
    using e m CreateBaseChainParams_custom [OF e] CreateBaseChainParams_custom [OF m]
    by simp
qed

text \<open>
  C7. The factory is pure. Its body, run in any process state, makes no access to the
  globals: it neither reads nor writes the slot and calls nothing on the collaborator. It
  returns normally, with a value that is the same in any two states for the same string,
  and it ends in the state it started in.
\<close>

theorem CreateBaseChainParams_pure:
  "effects (CreateBaseChainParams_prog chain) s = []
   \<and> exec (CreateBaseChainParams_prog chain) s = (Inr (CreateBaseChainParams chain), s)
   \<and> fst (exec (CreateBaseChainParams_prog chain) s)
       = fst (exec (CreateBaseChainParams_prog chain) s')
   \<and> run [Create chain] s = s"
  by (simp add: CreateBaseChainParams_prog_Return run_def)

text \<open>
  C10. The factory is injective: two different identifiers never give the same parameters.
  In particular a string that is not reserved never gives the parameters of a reserved
  chain, also when it is the suffix of one, its port 18553 being none of the reserved ports.
\<close>

theorem CreateBaseChainParams_injective:
  "(a \<noteq> b \<longrightarrow> CreateBaseChainParams a \<noteq> CreateBaseChainParams b)
   \<and> (c \<notin> set reserved_chains \<and> r \<in> set reserved_chains \<longrightarrow>
        CreateBaseChainParams c \<noteq> CreateBaseChainParams r
        \<and> defaultPort (CreateBaseChainParams c) \<noteq> defaultPort (CreateBaseChainParams r))"
proof (intro conjI impI)
  assume "a \<noteq> b"
  then show "CreateBaseChainParams a \<noteq> CreateBaseChainParams b"
    by (rule CreateBaseChainParams_differs)
next
  assume h: "c \<notin> set reserved_chains \<and> r \<in> set reserved_chains"
  then have "c \<noteq> r" by auto
  then show "CreateBaseChainParams c \<noteq> CreateBaseChainParams r"
    by (rule CreateBaseChainParams_differs)
next
  assume h: "c \<notin> set reserved_chains \<and> r \<in> set reserved_chains"
  then show "defaultPort (CreateBaseChainParams c) \<noteq> defaultPort (CreateBaseChainParams r)"
    by (auto simp add: factory_defs reserved_chains_def)
qed

theorem CreateBaseChainParams_injective_witness:
  "''testnet3'' \<noteq> ''test''
   \<and> CreateBaseChainParams ''testnet3'' \<noteq> CreateBaseChainParams ''test''
   \<and> '''' \<notin> set reserved_chains \<and> ''main'' \<in> set reserved_chains
   \<and> CreateBaseChainParams '''' \<noteq> CreateBaseChainParams ''main''
   \<and> defaultPort (CreateBaseChainParams '''') \<noteq> defaultPort (CreateBaseChainParams ''main'')"
proof -
  have d: "''testnet3'' \<noteq> ''test''" by simp
  have m: "'''' \<notin> set reserved_chains \<and> ''main'' \<in> set reserved_chains"
    by (simp add: reserved_chains_def chain_names)
  show ?thesis
    using d m CreateBaseChainParams_injective [of "''testnet3''" "''test''" "''''" "''main''"]
    by blast
qed

subsection \<open>Selection and access\<close>


text \<open>
  C4. In a state whose slot is empty, as it is when the process starts and remains as long
  as the calls made contain no selection, the accessor ends in the assertion failure and
  returns no value. Once a selection is among the calls made, whatever the state they
  started from, the accessor returns normally, with the parameters of the identifier
  selected last.
\<close>

theorem BaseParams_assertion:
  "(globalChainBaseParams s = None \<longrightarrow> BaseParams s = Inl AssertionFailure)
   \<and> BaseParams process_start = Inl AssertionFailure
   \<and> (last_selected cs = None \<longrightarrow> BaseParams (run cs process_start) = Inl AssertionFailure)
   \<and> (last_selected cs' = Some chain \<longrightarrow>
        BaseParams (run cs' s') = Inr (CreateBaseChainParams chain))"
  by (simp add: BaseParams_run) (simp add: BaseParams_def process_start_def)

theorem BaseParams_assertion_witness:
  "globalChainBaseParams process_start = None
   \<and> BaseParams process_start = Inl AssertionFailure
   \<and> last_selected [Setup, Create ''main''] = None
   \<and> BaseParams (run [Setup, Create ''main''] process_start) = Inl AssertionFailure
   \<and> last_selected [Setup, Select ''test'', Create ''regtest'', Select ''main''] = Some ''main''
   \<and> BaseParams (run [Setup, Select ''test'', Create ''regtest'', Select ''main''] process_start)
       = Inr (CreateBaseChainParams ''main'')"
proof -
  have a: "globalChainBaseParams process_start = None"
    by (simp add: process_start_def)
  have b: "last_selected [Setup, Create ''main''] = None"
    by simp
  have c: "last_selected [Setup, Select ''test'', Create ''regtest'', Select ''main'']
      = Some ''main''"
    by simp
  show ?thesis
    using a b c
      BaseParams_assertion [of process_start "[Setup, Create ''main'']"
        "[Setup, Select ''test'', Create ''regtest'', Select ''main'']" "''main''" process_start]
    by blast
qed


text \<open>
  C9. Within one call of \<open>SelectBaseParams\<close> the slot is assigned before the collaborator
  is notified: the accesses the body makes are the write of the slot, made in the entry
  state, and then the call on the collaborator, made in a state in which the accessor
  already returns the new parameters and the collaborator still is as on entry. The
  accessor returns the new parameters at the exit too, so from the start of the
  notification on the old value is not returned.
\<close>

theorem SelectBaseParams_assigns_before_notifying:
  "map fst (effects (SelectBaseParams_prog chain) s) = [Write_of_slot, Call_of_gArgs]
   \<and> map (BaseParams \<circ> snd) (effects (SelectBaseParams_prog chain) s)
       = [BaseParams s, Inr (CreateBaseChainParams chain)]
   \<and> map (gArgs \<circ> snd) (effects (SelectBaseParams_prog chain) s) = [gArgs s, gArgs s]
   \<and> exec (SelectBaseParams_prog chain) s = (Inr (), SelectBaseParams chain s)
   \<and> BaseParams (SelectBaseParams chain s) = Inr (CreateBaseChainParams chain)
   \<and> gArgs (SelectBaseParams chain s) = SelectConfigNetwork chain (gArgs s)"
  by (simp add: SelectBaseParams_def SelectBaseParams_prog_def
      CreateBaseChainParams_prog_Return BaseParams_def)

subsection \<open>Option registration\<close>

text \<open>
  C5. The help text registered for the chain selector names main as the default and says
  that any other value selects a custom chain in which all regtest-only options are
  available, but the reserved values it lists are main, test and regtest only: the word
  signet does not occur in it, although the factory treats "signet" as reserved and does
  not give it the custom-chain port.
\<close>

theorem chain_help_omits_signet:
  "map arg_help (registrations ''-chain=<chain>''
      (gArgs (SetupChainParamsBaseOptions process_start))) = [help_chain]
   \<and> mentions help_chain ''(default: main)''
   \<and> mentions help_chain ''Reserved values: main, test, regtest.''
   \<and> mentions help_chain ''With any other value, a custom chain is used.''
   \<and> mentions help_chain ''All regtest-only options are available in custom chains too.''
   \<and> \<not> mentions help_chain ''signet''
   \<and> CreateBaseChainParams ''signet'' \<noteq> \<lparr>dataDirectorySuffix = ''signet'', defaultPort = 18553\<rparr>"
proof (intro conjI)
  show "map arg_help (registrations ''-chain=<chain>''
      (gArgs (SetupChainParamsBaseOptions process_start))) = [help_chain]"
    by (simp add: setup_defs Let_def process_start_def)
  show "mentions help_chain ''(default: main)''"
    by (simp add: help_chain_def)
  show "mentions help_chain ''Reserved values: main, test, regtest.''"
    by (simp add: help_chain_def)
  show "mentions help_chain ''With any other value, a custom chain is used.''"
    by (simp add: help_chain_def)
  show "mentions help_chain ''All regtest-only options are available in custom chains too.''"
    by (simp add: help_chain_def)
  show "\<not> mentions help_chain ''signet''"
    by (simp add: help_chain_def)
  show "CreateBaseChainParams ''signet''
      \<noteq> \<lparr>dataDirectorySuffix = ''signet'', defaultPort = 18553\<rparr>"
    by (simp add: factory_defs)
qed

text \<open>
  C8. Of the options registered, -regtest, -segwitheight, -vbparams and -is_test_chain
  carry the developer-only flag; -testnet, -signet and the two signet script parameters do
  not; the two signet script parameters are string-valued. Each of these names is
  registered once by a call, after whatever the registry held before.
\<close>

theorem SetupChainParamsBaseOptions_flags:
  "map arg_flags (registrations ''-regtest'' (gArgs (SetupChainParamsBaseOptions process_start)))
     = [{ALLOW_ANY, DEBUG_ONLY}]
   \<and> map arg_flags (registrations ''-segwitheight=<n>''
        (gArgs (SetupChainParamsBaseOptions process_start))) = [{ALLOW_ANY, DEBUG_ONLY}]
   \<and> map arg_flags (registrations ''-vbparams=deployment:start:end''
        (gArgs (SetupChainParamsBaseOptions process_start))) = [{ALLOW_ANY, DEBUG_ONLY}]
   \<and> map arg_flags (registrations ''-is_test_chain''
        (gArgs (SetupChainParamsBaseOptions process_start))) = [{ALLOW_ANY, DEBUG_ONLY}]
   \<and> map arg_flags (registrations ''-testnet''
        (gArgs (SetupChainParamsBaseOptions process_start))) = [{ALLOW_ANY}]
   \<and> map arg_flags (registrations ''-signet''
        (gArgs (SetupChainParamsBaseOptions process_start))) = [{ALLOW_ANY}]
   \<and> map arg_flags (registrations ''-signet_blockscript''
        (gArgs (SetupChainParamsBaseOptions process_start))) = [{ALLOW_STRING}]
   \<and> map arg_flags (registrations ''-signet_enforcescript''
        (gArgs (SetupChainParamsBaseOptions process_start))) = [{ALLOW_STRING}]
   \<and> map (\<lambda>a. (arg_name a, DEBUG_ONLY \<in> arg_flags a))
        (m_available_args (gArgs (SetupChainParamsBaseOptions process_start)))
     = [(''-chain=<chain>'', False), (''-regtest'', True), (''-segwitheight=<n>'', True),
        (''-testnet'', False), (''-vbparams=deployment:start:end'', True), (''-signet'', False),
        (''-signet_blockscript'', False), (''-signet_enforcescript'', False),
        (''-is_test_chain'', True)]
   \<and> m_available_args (gArgs (SetupChainParamsBaseOptions s))
     = m_available_args (gArgs s)
       @ m_available_args (gArgs (SetupChainParamsBaseOptions process_start))"
proof (intro conjI)
  show "map arg_flags (registrations ''-regtest''
      (gArgs (SetupChainParamsBaseOptions process_start))) = [{ALLOW_ANY, DEBUG_ONLY}]"
    by (auto simp add: setup_defs Let_def process_start_def)
  show "map arg_flags (registrations ''-segwitheight=<n>''
      (gArgs (SetupChainParamsBaseOptions process_start))) = [{ALLOW_ANY, DEBUG_ONLY}]"
    by (auto simp add: setup_defs Let_def process_start_def)
  show "map arg_flags (registrations ''-vbparams=deployment:start:end''
      (gArgs (SetupChainParamsBaseOptions process_start))) = [{ALLOW_ANY, DEBUG_ONLY}]"
    by (auto simp add: setup_defs Let_def process_start_def)
  show "map arg_flags (registrations ''-is_test_chain''
      (gArgs (SetupChainParamsBaseOptions process_start))) = [{ALLOW_ANY, DEBUG_ONLY}]"
    by (auto simp add: setup_defs Let_def process_start_def)
  show "map arg_flags (registrations ''-testnet''
      (gArgs (SetupChainParamsBaseOptions process_start))) = [{ALLOW_ANY}]"
    by (simp add: setup_defs Let_def process_start_def)
  show "map arg_flags (registrations ''-signet''
      (gArgs (SetupChainParamsBaseOptions process_start))) = [{ALLOW_ANY}]"
    by (simp add: setup_defs Let_def process_start_def)
  show "map arg_flags (registrations ''-signet_blockscript''
      (gArgs (SetupChainParamsBaseOptions process_start))) = [{ALLOW_STRING}]"
    by (simp add: setup_defs Let_def process_start_def)
  show "map arg_flags (registrations ''-signet_enforcescript''
      (gArgs (SetupChainParamsBaseOptions process_start))) = [{ALLOW_STRING}]"
    by (simp add: setup_defs Let_def process_start_def)
  show "map (\<lambda>a. (arg_name a, DEBUG_ONLY \<in> arg_flags a))
        (m_available_args (gArgs (SetupChainParamsBaseOptions process_start)))
     = [(''-chain=<chain>'', False), (''-regtest'', True), (''-segwitheight=<n>'', True),
        (''-testnet'', False), (''-vbparams=deployment:start:end'', True), (''-signet'', False),
        (''-signet_blockscript'', False), (''-signet_enforcescript'', False),
        (''-is_test_chain'', True)]"
    by (simp add: setup_defs Let_def process_start_def)
  show "m_available_args (gArgs (SetupChainParamsBaseOptions s))
     = m_available_args (gArgs s)
       @ m_available_args (gArgs (SetupChainParamsBaseOptions process_start))"
    by (simp add: setup_defs Let_def process_start_def)
qed

end
